theory Spec2Isabelle
  imports Complex_Main
begin

section \<open>Emergence: chaos-game cells on a hexagonal chain (main.py)\<close>

text \<open>
  The program of \<^verbatim>\<open>main.py\<close> places a chain of hexagonal cells on the plane and fills
  each with the points of a rule-constrained chaos game. This theory embeds the functions
  of that file which carry logic: \<^verbatim>\<open>chooseNext\<close>, \<^verbatim>\<open>jumppoint\<close>, \<^verbatim>\<open>Hex.genPoints\<close>,
  \<^verbatim>\<open>Hex.drawNext\<close>, \<^verbatim>\<open>genGradient\<close>, \<^verbatim>\<open>chooseNextSpot\<close>, \<^verbatim>\<open>intTuple\<close> and the
  module-level placement loop.

  Conventions of the embedding.
  \<^item> A Python \<^verbatim>\<open>float\<close> is the real number it denotes. Where a result depends on how
    float operations round, in \<^verbatim>\<open>chooseNextSpot\<close>, whose result is truncated to whole
    numbers, the float operations are a parameter; elsewhere the arithmetic is exact.
  \<^item> Python's \<^verbatim>\<open>int\<close> is \<^typ>\<open>int\<close>.
  \<^item> The state of the module \<^verbatim>\<open>random\<close> is the list of raw values it will still hand
    out; every call of the module takes the head of that list and returns the rest.
  \<^item> A computation yields \<open>Some (Inr v)\<close> when it returns \<open>v\<close>, \<open>Some (Inl e)\<close> when it
    raises \<open>e\<close>, and \<open>None\<close> when the raw values ran out before it returned: a
    rejection loop that keeps drawing has not returned.
\<close>

subsection \<open>Errors and results\<close>

datatype error = OutOfRange | IndexError | ValueError | ZeroDivisionError

type_synonym 'a result = "(error + 'a) option"

definition ret :: "'a \<Rightarrow> 'a result" where
  "ret v = Some (Inr v)"

definition raise :: "error \<Rightarrow> 'a result" where
  "raise e = Some (Inl e)"

definition bind :: "'a result \<Rightarrow> ('a \<Rightarrow> 'b result) \<Rightarrow> 'b result" where
  "bind m f = (case m of None \<Rightarrow> None | Some (Inl e) \<Rightarrow> Some (Inl e) | Some (Inr v) \<Rightarrow> f v)"

type_synonym point = "real \<times> real"

subsection \<open>The module \<^verbatim>\<open>random\<close>\<close>

type_synonym rng = "nat list"

text \<open>
  \<^verbatim>\<open>random.randint(a, b)\<close>: a value of \<open>[a, b]\<close>; an empty range raises \<^verbatim>\<open>ValueError\<close>.
  The raw value is reduced into the range.
\<close>

definition randint :: "int \<Rightarrow> int \<Rightarrow> rng \<Rightarrow> (int \<times> rng) result" where
  "randint a b g =
     (if b < a then raise ValueError
      else case g of [] \<Rightarrow> None | r # g' \<Rightarrow> ret (a + int r mod (b - a + 1), g'))"

text \<open>\<^verbatim>\<open>random.choice(seq)\<close>: an element of \<open>seq\<close>; an empty sequence raises \<^verbatim>\<open>IndexError\<close>.\<close>

definition choice :: "'a list \<Rightarrow> rng \<Rightarrow> ('a \<times> rng) result" where
  "choice seq g =
     (if seq = [] then raise IndexError
      else case g of [] \<Rightarrow> None | r # g' \<Rightarrow> ret (seq ! (r mod length seq), g'))"

subsection \<open>Python list indexing and \<^verbatim>\<open>int()\<close>\<close>

text \<open>\<^verbatim>\<open>xs[i]\<close>: a negative index counts from the end; out of range raises \<^verbatim>\<open>IndexError\<close>.\<close>

definition getitem :: "'a list \<Rightarrow> int \<Rightarrow> 'a result" where
  "getitem xs i =
     (let n = int (length xs); j = (if i < 0 then n + i else i)
      in if 0 \<le> j \<and> j < n then ret (xs ! nat j) else raise IndexError)"

text \<open>\<^verbatim>\<open>int(x)\<close> on a float truncates towards zero.\<close>

definition py_int :: "real \<Rightarrow> int" where
  "py_int v = (if 0 \<le> v then \<lfloor>v\<rfloor> else \<lceil>v\<rceil>)"

subsection \<open>Floating point\<close>

text \<open>
  The float operations that \<^verbatim>\<open>chooseNextSpot\<close> and the list \<^verbatim>\<open>angles\<close> use:
  \<^verbatim>\<open>math.pi\<close>, \<^verbatim>\<open>math.cos\<close>, \<^verbatim>\<open>math.sin\<close> and the float sum, product and quotient.
\<close>

record float_module =
  math_pi :: real
  math_cos :: "real \<Rightarrow> real"
  math_sin :: "real \<Rightarrow> real"
  float_add :: "real \<Rightarrow> real \<Rightarrow> real"
  float_mul :: "real \<Rightarrow> real \<Rightarrow> real"
  float_div :: "real \<Rightarrow> real \<Rightarrow> real"

text \<open>
  IEEE 754 binary64, the \<^verbatim>\<open>float\<close> of CPython: a sum, product or quotient is the exact one
  rounded to the nearest float, ties to the even one. \<open>binade x\<close> is the power of two \<open>p\<close>
  with \<open>p \<le> \<bar>x\<bar> < 2 * p\<close> (the least normal one, \<open>2 ^ -1022\<close>, below it); the floats of
  that binade are the multiples of \<open>p / 2 ^ 52\<close>. Overflow is not modelled.
\<close>

fun pow2_up :: "nat \<Rightarrow> real \<Rightarrow> real \<Rightarrow> real" where
  "pow2_up 0 p x = p"
| "pow2_up (Suc n) p x = (if x < 2 * p then p else pow2_up n (2 * p) x)"

fun pow2_down :: "nat \<Rightarrow> real \<Rightarrow> real \<Rightarrow> real" where
  "pow2_down 0 p x = p"
| "pow2_down (Suc n) p x = (if p \<le> x then p else pow2_down n (p / 2) x)"

definition binade :: "real \<Rightarrow> real" where
  "binade x = (if 1 \<le> \<bar>x\<bar> then pow2_up 1023 1 \<bar>x\<bar> else pow2_down 1021 (1 / 2) \<bar>x\<bar>)"

definition round_half_even :: "real \<Rightarrow> int" where
  "round_half_even s =
     (let n = \<lfloor>s\<rfloor>; r = s - of_int n
      in if r < 1 / 2 then n else if 1 / 2 < r then n + 1 else if even n then n else n + 1)"

definition rd :: "real \<Rightarrow> real" where
  "rd x = (if x = 0 then 0
           else let u = binade x / 2 ^ 52 in of_int (round_half_even (x / u)) * u)"

text \<open>
  \<^verbatim>\<open>math.cos\<close> and \<^verbatim>\<open>math.sin\<close> are the C library's. At the six floats of the list
  \<^verbatim>\<open>angles\<close> they return the values of this table (angle, cosine, sine), each float
  written as the fraction \<^verbatim>\<open>float.as_integer_ratio()\<close> gives; elsewhere they are taken as
  correctly rounded. In decimal:
  \<^verbatim>\<open>
  angle                cos                        sin
  0.5235987755982988   0.8660254037844387         0.49999999999999994
  1.5707963267948966   6.123233995736766e-17      1.0
  2.6179938779914944   -0.8660254037844387        0.49999999999999994
  3.665191429188092    -0.8660254037844388        -0.4999999999999997
  4.71238898038469     -1.8369701987210297e-16    -1.0
  5.759586531581287    0.8660254037844384         -0.5000000000000004
  \<close>
\<close>

definition libm_table :: "(real \<times> real \<times> real) list" where
  "libm_table =
     [(4716158501352293 / 9007199254740992,
         7800463371553963 / 9007199254740992, 9007199254740991 / 18014398509481984),
      (884279719003555 / 562949953421312,
         4967757600021511 / 81129638414606681695789005144064, 1),
      (5895198126690367 / 2251799813685248,
         - 7800463371553963 / 9007199254740992, 9007199254740991 / 18014398509481984),
      (8253277377366513 / 2251799813685248,
         - 1950115842888491 / 2251799813685248, - 9007199254740987 / 18014398509481984),
      (2652839157010665 / 562949953421312,
         - 3725818200016133 / 20282409603651670423947251286016, - 1),
      (6484717939359403 / 1125899906842624,
         975057921444245 / 1125899906842624, - 1125899906842625 / 2251799813685248)]"

definition ieee_cos :: "real \<Rightarrow> real" where
  "ieee_cos x = (case map_of libm_table x of Some (c, s) \<Rightarrow> c | None \<Rightarrow> rd (cos x))"

definition ieee_sin :: "real \<Rightarrow> real" where
  "ieee_sin x = (case map_of libm_table x of Some (c, s) \<Rightarrow> s | None \<Rightarrow> rd (sin x))"

definition ieee_double :: float_module where
  "ieee_double =
     \<lparr>math_pi = 884279719003555 / 281474976710656,
      math_cos = ieee_cos, math_sin = ieee_sin,
      float_add = (\<lambda>x y. rd (x + y)),
      float_mul = (\<lambda>x y. rd (x * y)),
      float_div = (\<lambda>x y. rd (x / y))\<rparr>"

subsection \<open>\<^verbatim>\<open>jumppoint\<close>\<close>

text \<open>
  \<^verbatim>\<open>
  def jumppoint(point1, point2, factor, override=False):
      if override:
          factor = 2
      return (point1[0] + (point2[0] - point1[0])/factor,
              point1[1] + (point2[1] - point1[1])/factor)
  \<close>
  Python's division raises \<^verbatim>\<open>ZeroDivisionError\<close> on a zero divisor.
\<close>

definition jumppoint :: "point \<Rightarrow> point \<Rightarrow> real \<Rightarrow> bool \<Rightarrow> point result" where
  "jumppoint point1 point2 factor override =
     (let factor = (if override then 2 else factor)
      in if factor = 0 then raise ZeroDivisionError
         else ret (fst point1 + (fst point2 - fst point1) / factor,
                   snd point1 + (snd point2 - snd point1) / factor))"

subsection \<open>\<^verbatim>\<open>chooseNext\<close>\<close>

lemma bind_cong [fundef_cong]:
  "m = m' \<Longrightarrow> (\<And>v. m' = Some (Inr v) \<Longrightarrow> f v = f' v) \<Longrightarrow> bind m f = bind m' f'"
  by (auto simp: bind_def split: option.splits sum.splits)

lemma randint_shorter:
  "randint a b g = Some (Inr (i, g')) \<Longrightarrow> length g' < length g"
  by (auto simp: randint_def raise_def ret_def split: if_splits list.splits)

text \<open>
  One rejection loop of \<^verbatim>\<open>chooseNext\<close>, for a vertex count \<open>n\<close> and a forbidden value:
  \<^verbatim>\<open>
  while pointIndex == forbidden:
      pointIndex = random.randint(0, len(points) - 1)
  \<close>
\<close>

function redraw :: "int \<Rightarrow> int \<Rightarrow> int \<Rightarrow> rng \<Rightarrow> (int \<times> rng) result" where
  "redraw n forbidden pointIndex g =
     (if pointIndex = forbidden
      then bind (randint 0 (n - 1) g) (\<lambda>(pointIndex', g'). redraw n forbidden pointIndex' g')
      else ret (pointIndex, g))"
  by pat_completeness auto
termination
  by (relation "measure (\<lambda>(n, forbidden, pointIndex, g). length g)")
     (auto dest: randint_shorter)

declare redraw.simps [simp del]

text \<open>
  \<^verbatim>\<open>
  if rules[k]:
      while pointIndex == forbidden: ...
  \<close>
\<close>

definition rule_loop :: "bool list \<Rightarrow> int \<Rightarrow> int \<Rightarrow> int \<Rightarrow> int \<Rightarrow> rng \<Rightarrow> (int \<times> rng) result" where
  "rule_loop rules k n forbidden pointIndex g =
     bind (getitem rules k) (\<lambda>enabled.
       if enabled then redraw n forbidden pointIndex g else ret (pointIndex, g))"

text \<open>
  \<^verbatim>\<open>
  def chooseNext(points, prevChoice, rules, override=False):
      if prevChoice >= len(points):
          raise Exception("prevChoice out of range")
      fail = False
      pointIndex = random.randint(0, len(points) - 1)
      if not override:
          if rules[0]:
              while pointIndex == prevChoice:
                  pointIndex = random.randint(0, len(points) - 1)
          if rules[1]:
              while pointIndex == (prevChoice % len(points)) + 1:
                  pointIndex = random.randint(0, len(points) - 1)
          if rules[2]:
              while pointIndex == (prevChoice % len(points)) + 2:
                  pointIndex = random.randint(0, len(points) - 1)
          if rules[3]:
              while pointIndex == (prevChoice % len(points)) + 3:
                  pointIndex = random.randint(0, len(points) - 1)
      return pointIndex
  \<close>
  The exception of the first line is the error \<open>OutOfRange\<close>. The four loops run one
  after the other, each on the index the one before it left. (With no vertex at all the
  first \<^verbatim>\<open>randint\<close> raises, so \<^verbatim>\<open>prevChoice % 0\<close> is never evaluated.)
\<close>

definition chooseNext :: "point list \<Rightarrow> int \<Rightarrow> bool list \<Rightarrow> bool \<Rightarrow> rng \<Rightarrow> (int \<times> rng) result" where
  "chooseNext points prevChoice rules override g =
     (let n = int (length points) in
      if prevChoice \<ge> n then raise OutOfRange
      else bind (randint 0 (n - 1) g) (\<lambda>(pointIndex, g).
        if \<not> override then
          bind (rule_loop rules 0 n prevChoice pointIndex g) (\<lambda>(pointIndex, g).
          bind (rule_loop rules 1 n (prevChoice mod n + 1) pointIndex g) (\<lambda>(pointIndex, g).
          bind (rule_loop rules 2 n (prevChoice mod n + 2) pointIndex g) (\<lambda>(pointIndex, g).
          bind (rule_loop rules 3 n (prevChoice mod n + 3) pointIndex g) (\<lambda>(pointIndex, g).
            ret (pointIndex, g)))))
        else ret (pointIndex, g)))"

subsection \<open>The colour library\<close>

text \<open>
  \<^verbatim>\<open>Color\<close> comes from the package \<^verbatim>\<open>colour\<close>, which is not part of the program. The
  program uses four things of it, taken here as a parameter: the constructor from a
  colour name, \<^verbatim>\<open>range_to\<close> (a gradient of a requested number of colours between two
  colours) and the three channels of a colour, each in \<open>[0, 1]\<close>.
\<close>

record 'c colour_module =
  Color :: "string \<Rightarrow> 'c"
  range_to :: "'c \<Rightarrow> 'c \<Rightarrow> nat \<Rightarrow> 'c list"
  red :: "'c \<Rightarrow> real"
  green :: "'c \<Rightarrow> real"
  blue :: "'c \<Rightarrow> real"

text \<open>
  \<^verbatim>\<open>
  colors = (Color("red"), Color("orange"), Color("yellow"),
            Color("green"), Color("blue"), Color("purple"))
  \<close>
\<close>

definition colors :: "'c colour_module \<Rightarrow> 'c list" where
  "colors lib =
     [Color lib ''red'', Color lib ''orange'', Color lib ''yellow'',
      Color lib ''green'', Color lib ''blue'', Color lib ''purple'']"

text \<open>
  \<^verbatim>\<open>
  def genGradient():
      grad = list(colors[random.randint(0, len(colors) - 1)].range_to(
                    colors[random.randint(0, len(colors) - 1)], 255))
      return grad
  \<close>
\<close>

definition genGradient :: "'c colour_module \<Rightarrow> rng \<Rightarrow> ('c list \<times> rng) result" where
  "genGradient lib g =
     bind (randint 0 (int (length (colors lib)) - 1) g) (\<lambda>(a, g).
     bind (getitem (colors lib) a) (\<lambda>first.
     bind (randint 0 (int (length (colors lib)) - 1) g) (\<lambda>(b, g).
     bind (getitem (colors lib) b) (\<lambda>second.
       ret (range_to lib first second 255, g)))))"

text \<open>
  A sample colour library for running the model: colours are RGB triples, the named
  colours are the six the program asks for, and a gradient is the linear one.
\<close>

definition rgb_Color :: "string \<Rightarrow> real \<times> real \<times> real" where
  "rgb_Color name =
     (if name = ''red'' then (1, 0, 0)
      else if name = ''orange'' then (1, 165 / 255, 0)
      else if name = ''yellow'' then (1, 1, 0)
      else if name = ''green'' then (0, 128 / 255, 0)
      else if name = ''blue'' then (0, 0, 1)
      else if name = ''purple'' then (128 / 255, 0, 128 / 255)
      else (0, 0, 0))"

definition rgb_range_to :: "real \<times> real \<times> real \<Rightarrow> real \<times> real \<times> real \<Rightarrow> nat \<Rightarrow> (real \<times> real \<times> real) list" where
  "rgb_range_to a b steps =
     map (\<lambda>k. case (a, b) of ((r1, g1, b1), (r2, g2, b2)) \<Rightarrow>
            (let t = (if steps \<le> 1 then 0 else real k / real (steps - 1))
             in (r1 + (r2 - r1) * t, g1 + (g2 - g1) * t, b1 + (b2 - b1) * t)))
         [0..<steps]"

definition rgb_module :: "(real \<times> real \<times> real) colour_module" where
  "rgb_module =
     \<lparr>Color = rgb_Color, range_to = rgb_range_to,
      red = (\<lambda>c. fst c), green = (\<lambda>c. fst (snd c)), blue = (\<lambda>c. snd (snd c))\<rparr>"

subsection \<open>The class \<^verbatim>\<open>Hex\<close>\<close>

text \<open>
  What was drawn on a \<^verbatim>\<open>pygame.Surface\<close>, oldest first: the surface is the list of the
  drawing calls made on it, each with its colour.
\<close>

datatype shape =
  Polygon "real \<times> real \<times> real" "point list"
| Circle "real \<times> real \<times> real" point real

type_synonym surface = "shape list"

text \<open>The class attributes \<^verbatim>\<open>r = 100\<close> and \<^verbatim>\<open>d = 2.5*r\<close>.\<close>

definition Hex_r :: real where
  "Hex_r = 100"

definition Hex_d :: real where
  "Hex_d = 2.5 * Hex_r"

text \<open>The attributes of an instance, \<^verbatim>\<open>self.x\<close> as \<open>self_x\<close> and so on.\<close>

record 'c Hex =
  self_x :: real
  self_y :: real
  self_verts :: "point list"
  self_polyverts :: "point list"
  self_itr :: nat
  self_currentPoint :: point
  self_points :: "point list"
  self_pointIndex :: nat
  self_rules :: "bool list"
  self_factor :: real
  self_surface :: surface
  self_override :: bool
  self_prevChoice :: int
  self_grad :: "'c list"

text \<open>
  \<^verbatim>\<open>
  def genPoints(self):
      for i in range(self.itr):
          newVert = chooseNext(self.polyverts, self.prevChoice, self.rules, self.override)
          pnt = jumppoint((self.polyverts[newVert][0], self.polyverts[newVert][1]),
                          self.currentPoint, self.factor, self.override)
          self.points.append(pnt)
          self.currentPoint = pnt
          self.prevChoice = newVert
  \<close>
  The loop runs \<open>self.itr\<close> times, counted down by the first argument.
\<close>

fun genPoints_loop :: "nat \<Rightarrow> 'c Hex \<Rightarrow> rng \<Rightarrow> ('c Hex \<times> rng) result" where
  "genPoints_loop 0 self g = ret (self, g)"
| "genPoints_loop (Suc k) self g =
     bind (chooseNext (self_polyverts self) (self_prevChoice self) (self_rules self)
             (self_override self) g) (\<lambda>(newVert, g).
     bind (getitem (self_polyverts self) newVert) (\<lambda>vert.
     bind (jumppoint (fst vert, snd vert) (self_currentPoint self) (self_factor self)
             (self_override self)) (\<lambda>pnt.
       genPoints_loop k
         (self\<lparr>self_points := self_points self @ [pnt],
               self_currentPoint := pnt,
               self_prevChoice := newVert\<rparr>) g)))"

definition genPoints :: "'c Hex \<Rightarrow> rng \<Rightarrow> ('c Hex \<times> rng) result" where
  "genPoints self g = genPoints_loop (self_itr self) self g"

text \<open>
  \<^verbatim>\<open>Hex.__init__(self, x, y, rules, factor)\<close>. The instance as it stands when
  \<^verbatim>\<open>self.genPoints()\<close> is called, given the inner polygon's vertex count and the
  gradient drawn before: \<^verbatim>\<open>self.itr = 5000\<close>, \<^verbatim>\<open>self.points = [(0, 0), (0, 0)]\<close>,
  \<^verbatim>\<open>self.override = len(self.polyverts) == 3\<close>, \<^verbatim>\<open>self.prevChoice = 0\<close>.
\<close>

definition Hex_verts :: "point list" where
  "Hex_verts =
     map (\<lambda>i. (Hex_r + 50 + (Hex_r + 50) * cos ((pi / 3) * real i),
                Hex_r + 50 + (Hex_r + 50) * sin ((pi / 3) * real i))) [0..<6]"

definition Hex_polyverts :: "nat \<Rightarrow> point list" where
  "Hex_polyverts poly =
     map (\<lambda>i. (Hex_r + 50 + Hex_r * cos (2 * pi / real poly * real i),
                Hex_r + 50 + Hex_r * sin (2 * pi / real poly * real i))) [0..<poly]"

definition Hex_fields :: "real \<Rightarrow> real \<Rightarrow> bool list \<Rightarrow> real \<Rightarrow> nat \<Rightarrow> 'c list \<Rightarrow> 'c Hex" where
  "Hex_fields x y rules factor poly grad =
     \<lparr>self_x = x, self_y = y,
      self_verts = Hex_verts,
      self_polyverts = Hex_polyverts poly,
      self_itr = 5000,
      self_currentPoint = (0, 0),
      self_points = [(0, 0), (0, 0)],
      self_pointIndex = 0,
      self_rules = rules,
      self_factor = factor,
      self_surface = [Polygon (100, 100, 100) Hex_verts, Polygon (50, 50, 50) (Hex_polyverts poly)],
      self_override = (length (Hex_polyverts poly) = 3),
      self_prevChoice = 0,
      self_grad = grad\<rparr>"

definition Hex_init :: "'c colour_module \<Rightarrow> real \<Rightarrow> real \<Rightarrow> bool list \<Rightarrow> real \<Rightarrow> rng \<Rightarrow> ('c Hex \<times> rng) result" where
  "Hex_init lib x y rules factor g =
     bind (randint 3 8 g) (\<lambda>(poly, g).
     bind (genGradient lib g) (\<lambda>(grad, g).
       genPoints (Hex_fields x y rules factor (nat poly) grad) g))"

text \<open>
  \<^verbatim>\<open>
  def drawNext(self, surface):
      i = self.points[self.pointIndex]
      index = random.choice([0, 1])
      pygame.draw.circle(surface,
          (self.grad[int(i[index]) % 255].red*255,
           self.grad[int(i[index]) % 255].green*255,
           self.grad[int(i[index]) % 255].blue*255), i, 1)
      self.pointIndex += 1
  \<close>
  The palette index is \<open>colorIndex\<close>; the result is the instance, the surface drawn on
  and the generator.
\<close>

definition colorIndex :: "point \<Rightarrow> nat \<Rightarrow> int" where
  "colorIndex i index = py_int (if index = 0 then fst i else snd i) mod 255"

definition drawNext :: "'c colour_module \<Rightarrow> 'c Hex \<Rightarrow> surface \<Rightarrow> rng \<Rightarrow> ('c Hex \<times> surface \<times> rng) result" where
  "drawNext lib self surface g =
     bind (getitem (self_points self) (int (self_pointIndex self))) (\<lambda>i.
     bind (choice [0, 1] g) (\<lambda>(index, g).
     bind (getitem (self_grad self) (colorIndex i index)) (\<lambda>c.
       ret (self\<lparr>self_pointIndex := self_pointIndex self + 1\<rparr>,
            surface @ [Circle (red lib c * 255, green lib c * 255, blue lib c * 255) i 1],
            g))))"

subsection \<open>Placing the cells\<close>

text \<open>
  \<^verbatim>\<open>angles = [math.pi/6, math.pi/2, 5*math.pi/6, 7*math.pi/6, 3*math.pi/2, 11*math.pi/6]\<close>
\<close>

definition angles :: "float_module \<Rightarrow> real list" where
  "angles fl =
     [float_div fl (math_pi fl) 6,
      float_div fl (math_pi fl) 2,
      float_div fl (float_mul fl 5 (math_pi fl)) 6,
      float_div fl (float_mul fl 7 (math_pi fl)) 6,
      float_div fl (float_mul fl 3 (math_pi fl)) 2,
      float_div fl (float_mul fl 11 (math_pi fl)) 6]"

text \<open>\<^verbatim>\<open>def intTuple(tup): return (int(tup[0]), int(tup[1]))\<close>\<close>

definition intTuple :: "point \<Rightarrow> point" where
  "intTuple tup = (real_of_int (py_int (fst tup)), real_of_int (py_int (snd tup)))"

text \<open>
  \<^verbatim>\<open>
  def chooseNextSpot(prevCoords):
      randAngle = random.choice(angles)
      newCoords = (prevCoords[0] + Hex.d*math.cos(randAngle),
                   prevCoords[1] + Hex.d*math.sin(randAngle))
      return intTuple(newCoords)
  \<close>
\<close>

text \<open>
  The float step \<^verbatim>\<open>newCoords\<close>. (\<^verbatim>\<open>Hex.d = 2.5*r\<close> is 250.0, without rounding.)
\<close>

definition newCoords :: "float_module \<Rightarrow> point \<Rightarrow> real \<Rightarrow> point" where
  "newCoords fl prevCoords randAngle =
     (float_add fl (fst prevCoords) (float_mul fl Hex_d (math_cos fl randAngle)),
      float_add fl (snd prevCoords) (float_mul fl Hex_d (math_sin fl randAngle)))"

definition chooseNextSpot :: "float_module \<Rightarrow> point \<Rightarrow> rng \<Rightarrow> (point \<times> rng) result" where
  "chooseNextSpot fl prevCoords g =
     bind (choice (angles fl) g) (\<lambda>(randAngle, g).
       ret (intTuple (newCoords fl prevCoords randAngle), g))"

text \<open>
  \<^verbatim>\<open>sorta = lambda l, r: (abs(l[0] - r[0]) < 10) and (abs(l[1] - r[1]) < 10)\<close>
  (The anchors are whole numbers, but for the seed, which may end in a half; the
  differences are exact.)
\<close>

definition sorta :: "point \<Rightarrow> point \<Rightarrow> bool" where
  "sorta l r = (\<bar>fst l - fst r\<bar> < 10 \<and> \<bar>snd l - snd r\<bar> < 10)"

text \<open>
  \<^verbatim>\<open>
  found = False
  for c in coords:
      if sorta(c, coord):
          found = True
          break
  \<close>
\<close>

fun found :: "point list \<Rightarrow> point \<Rightarrow> bool" where
  "found [] coord = False"
| "found (c # coords) coord = (if sorta c coord then True else found coords coord)"

lemma choice_shorter:
  "choice seq g = Some (Inr (v, g')) \<Longrightarrow> length g' < length g"
  by (auto simp: choice_def raise_def ret_def split: if_splits list.splits)

lemma chooseNextSpot_shorter:
  "chooseNextSpot fl prevCoords g = Some (Inr (c, g')) \<Longrightarrow> length g' < length g"
  by (auto simp: chooseNextSpot_def bind_def ret_def
           split: option.splits sum.splits prod.splits dest: choice_shorter)

text \<open>
  \<^verbatim>\<open>
  while True:
      found = ...
      if found:
          coord = chooseNextSpot(coords[-1])
      else:
          break
  \<close>
\<close>

function redraw_spot :: "float_module \<Rightarrow> point list \<Rightarrow> point \<Rightarrow> rng \<Rightarrow> (point \<times> rng) result" where
  "redraw_spot fl coords coord g =
     (if found coords coord
      then bind (getitem coords (- 1)) (\<lambda>prev.
           bind (chooseNextSpot fl prev g) (\<lambda>(coord', g'). redraw_spot fl coords coord' g'))
      else ret (coord, g))"
  by pat_completeness auto
termination
  by (relation "measure (\<lambda>(fl, coords, coord, g). length g)")
     (auto dest: chooseNextSpot_shorter)

declare redraw_spot.simps [simp del]

text \<open>
  \<^verbatim>\<open>
  for i in range(random.randint(7, 15)):
      coord = chooseNextSpot(coords[-1])
      ... the loop above ...
      coords.append(coord)
      if coord[0] > width or coord[0] < 0 or coord[1] > height or coord[1] < 0:
          break
  \<close>
  \<open>place\<close> is the body of the \<^verbatim>\<open>for\<close>, with the number of rounds still to run.
\<close>

fun place :: "float_module \<Rightarrow> nat \<Rightarrow> real \<Rightarrow> real \<Rightarrow> point list \<Rightarrow> rng \<Rightarrow> (point list \<times> rng) result" where
  "place fl 0 width height coords g = ret (coords, g)"
| "place fl (Suc k) width height coords g =
     bind (getitem coords (- 1)) (\<lambda>prev.
     bind (chooseNextSpot fl prev g) (\<lambda>(coord, g).
     bind (redraw_spot fl coords coord g) (\<lambda>(coord, g).
       if fst coord > width \<or> fst coord < 0 \<or> snd coord > height \<or> snd coord < 0
       then ret (coords @ [coord], g)
       else place fl k width height (coords @ [coord]) g)))"

text \<open>
  The list as the module sets it up, \<^verbatim>\<open>coords = [(width/2 - 400, height/2 - 400)]\<close>,
  and the whole loop. The program draws the number of rounds with \<^verbatim>\<open>randint(7, 15)\<close>;
  the two bounds are arguments here.
\<close>

definition coords_init :: "real \<Rightarrow> real \<Rightarrow> point list" where
  "coords_init width height = [(width / 2 - 400, height / 2 - 400)]"

definition placement :: "float_module \<Rightarrow> int \<Rightarrow> int \<Rightarrow> real \<Rightarrow> real \<Rightarrow> rng \<Rightarrow> (point list \<times> rng) result" where
  "placement fl minCount maxCount width height g =
     bind (randint minCount maxCount g) (\<lambda>(count, g).
       place fl (nat count) width height (coords_init width height) g)"

definition main_placement :: "float_module \<Rightarrow> real \<Rightarrow> real \<Rightarrow> rng \<Rightarrow> (point list \<times> rng) result" where
  "main_placement fl width height g = placement fl 7 15 width height g"

subsection \<open>Predicates on anchor sequences\<close>

text \<open>No two entries of the list are within 10 units of each other on both axes.\<close>

definition separated :: "point list \<Rightarrow> bool" where
  "separated coords =
     (\<forall>i < length coords. \<forall>j < length coords. i \<noteq> j \<longrightarrow> \<not> sorta (coords ! i) (coords ! j))"

text \<open>One anchor is a truncated step from another, in one of the six directions.\<close>

definition step :: "float_module \<Rightarrow> point \<Rightarrow> point \<Rightarrow> bool" where
  "step fl p q = (\<exists>a \<in> set (angles fl). q = intTuple (newCoords fl p a))"

definition chain :: "float_module \<Rightarrow> point list \<Rightarrow> bool" where
  "chain fl coords = (\<forall>i. Suc i < length coords \<longrightarrow> step fl (coords ! i) (coords ! Suc i))"

section \<open>Properties\<close>

subsection \<open>Running the model on concrete inputs\<close>

lemmas run_defs = chooseNext_def rule_loop_def redraw.simps randint_def choice_def getitem_def
  bind_def ret_def raise_def Let_def

lemma pow2_up_numeral:
  "pow2_up (numeral k) p x = (if x < 2 * p then p else pow2_up (pred_numeral k) (2 * p) x)"
  by (simp add: numeral_eq_Suc)

lemma pow2_down_numeral:
  "pow2_down (numeral k) p x = (if p \<le> x then p else pow2_down (pred_numeral k) (p / 2) x)"
  by (simp add: numeral_eq_Suc)

lemmas rd_eval = rd_def binade_def round_half_even_def pow2_up_numeral pow2_down_numeral Let_def

lemma ieee_double_simps:
  "math_pi ieee_double = 884279719003555 / 281474976710656"
  "math_cos ieee_double = ieee_cos"
  "math_sin ieee_double = ieee_sin"
  "float_add ieee_double x y = rd (x + y)"
  "float_mul ieee_double x y = rd (x * y)"
  "float_div ieee_double x y = rd (x / y)"
  by (simp_all add: ieee_double_def)

text \<open>The six floats of \<^verbatim>\<open>angles\<close> in binary64 are the six angles of the table.\<close>

lemma angles_ieee: "angles ieee_double = map fst libm_table"
  by (simp add: angles_def ieee_double_simps libm_table_def rd_eval)

lemmas spot_defs = chooseNextSpot_def newCoords_def angles_ieee ieee_double_simps ieee_cos_def
  ieee_sin_def libm_table_def intTuple_def py_int_def Hex_d_def Hex_r_def redraw_spot.simps
  sorta_def rd_eval

text \<open>
  The steps in binary64 that the examples below take, from the seed (510, 90) of an
  1820 by 980 view and from (510, 340).
\<close>

lemma spot_seed_0: "chooseNextSpot ieee_double (510, 90) (0 # g) = Some (Inr ((726, 215), g))"
  by (simp add: spot_defs run_defs)

lemma spot_seed_1: "chooseNextSpot ieee_double (510, 90) (Suc 0 # g) = Some (Inr ((510, 340), g))"
  by (simp add: spot_defs run_defs)

lemma spot_seed_4: "chooseNextSpot ieee_double (510, 90) (4 # g) = Some (Inr ((509, - 160), g))"
  by (simp add: spot_defs run_defs)

lemma spot_second_4: "chooseNextSpot ieee_double (510, 340) (4 # g) = Some (Inr ((509, 90), g))"
  by (simp add: spot_defs run_defs)

lemma spot_second_1: "chooseNextSpot ieee_double (510, 340) (Suc 0 # g) = Some (Inr ((510, 590), g))"
  by (simp add: spot_defs run_defs)

lemma place_two: "place fl 2 = place fl (Suc (Suc 0))"
  by (simp add: numeral_2_eq_2)

lemmas place_defs = placement_def coords_init_def randint_def getitem_def bind_def ret_def
  raise_def Let_def redraw_spot.simps sorta_def place_two
  spot_seed_0 spot_seed_1 spot_seed_4 spot_second_4 spot_second_1

lemma bind_returns:
  "bind m f = Some (Inr w) \<Longrightarrow> \<exists>v. m = Some (Inr v) \<and> f v = Some (Inr w)"
  by (auto simp: bind_def split: option.splits sum.splits)

lemma bind_error:
  "bind m f = Some (Inl e) \<Longrightarrow> m = Some (Inl e) \<or> (\<exists>v. m = Some (Inr v) \<and> f v = Some (Inl e))"
  by (auto simp: bind_def split: option.splits sum.splits)

subsection \<open>The rule filter\<close>

text \<open>
  Claim C1: with \<open>override\<close> false, the index \<open>chooseNext\<close> returns is never one that an
  enabled rule forbids, that is, never \<open>(prevChoice + k) mod vertexCount\<close> for an enabled
  rule \<open>k\<close>. The code does not keep this. Its loops run one after the other, so the
  redraw of a later rule can land on the value an earlier rule had excluded: on a
  triangle with \<open>prevChoice = 0\<close>, rules 0 and 1 enabled and the draws 1, 0, the loop of
  rule 1 rejects 1 and accepts 0, the previous choice. And the forbidden value of rule
  \<open>k\<close> is \<open>(prevChoice % n) + k\<close>, which is not reduced: with \<open>prevChoice = 2\<close> on a
  triangle, rule 1 forbids 3, never drawn, and 0 (one place after 2) is returned.
\<close>

theorem chooseNext_returns_forbidden:
  "chooseNext [(0, 0), (1, 0), (0, 1)] 0 [True, True, False, False, False] False [1, 0]
     = Some (Inr ((0 + 0) mod 3, []))
   \<and> chooseNext [(0, 0), (1, 0), (0, 1)] 2 [False, True, False, False, False] False [0]
     = Some (Inr ((2 + 1) mod 3, []))"
  by (simp add: run_defs)

lemma randint_error: "randint a b g = Some (Inl e) \<Longrightarrow> b < a \<and> e = ValueError"
  by (auto simp: randint_def raise_def ret_def split: list.splits if_splits)

lemma redraw_error: "redraw n f i g = Some (Inl e) \<Longrightarrow> n \<le> 0 \<and> e = ValueError"
proof (induction n f i g rule: redraw.induct)
  case (1 n f i g)
  show ?case
  proof (cases "i = f")
    case True
    with 1 show ?thesis
      by (subst (asm) redraw.simps)
         (auto simp: bind_def split: option.splits sum.splits dest: randint_error)
  next
    case False
    with 1 show ?thesis by (subst (asm) redraw.simps) (simp add: ret_def)
  qed
qed

lemma rule_loop_error:
  "rule_loop rules k n f i g = Some (Inl e) \<Longrightarrow>
     (e = IndexError \<and> \<not> (- int (length rules) \<le> k \<and> k < int (length rules)))
     \<or> (e = ValueError \<and> n \<le> 0)"
  by (auto simp: rule_loop_def getitem_def bind_def ret_def raise_def Let_def
           split: option.splits sum.splits if_splits dest: redraw_error)

text \<open>The three ways \<open>chooseNext\<close> can raise.\<close>

lemma chooseNext_error:
  assumes "chooseNext points prevChoice rules override g = Some (Inl e)"
  shows "(e = OutOfRange \<and> int (length points) \<le> prevChoice)
       \<or> (e = ValueError \<and> prevChoice < int (length points) \<and> points = [])
       \<or> (e = IndexError \<and> prevChoice < int (length points) \<and> \<not> override \<and> length rules < 4)"
proof (cases "int (length points) \<le> prevChoice")
  case True
  with assms show ?thesis by (simp add: chooseNext_def raise_def)
next
  case False
  show ?thesis
  proof (cases "points = []")
    case True
    with False assms show ?thesis
      by (simp add: chooseNext_def randint_def raise_def bind_def)
  next
    case ne: False
    from assms False ne show ?thesis
      apply (simp add: chooseNext_def Let_def)
      apply (auto dest!: bind_error randint_error simp: ret_def split: if_splits)
      apply (auto dest!: rule_loop_error)
      done
  qed
qed

text \<open>
  Claim C5, as stated: \<open>chooseNext\<close> fails with \<open>OutOfRange\<close> exactly when \<open>prevChoice\<close>
  is outside \<open>[0, vertexCount)\<close>. The guard of the code is \<^verbatim>\<open>prevChoice >= len(points)\<close>
  alone, so a negative \<open>prevChoice\<close> passes it: on a triangle, \<open>prevChoice = -1\<close> and
  the draw 2 return the index 2.
\<close>

theorem chooseNext_negative_prevChoice:
  "chooseNext [(0, 0), (1, 0), (0, 1)] (- 1) [False, False, False, False, False] False [2]
     = Some (Inr (2, []))"
  by (simp add: run_defs)

text \<open>
  Claim C5, amended: \<open>chooseNext\<close> fails with \<open>OutOfRange\<close> exactly when
  \<open>prevChoice \<ge> vertexCount\<close>. For a \<open>prevChoice\<close> in \<open>[0, vertexCount)\<close> and a rule set
  of five entries it raises no error at all (it returns an index or is still drawing),
  and with \<open>override\<close> true it returns the first index drawn.
\<close>

theorem chooseNext_guard:
  "(chooseNext points prevChoice rules override g = Some (Inl OutOfRange)
      \<longleftrightarrow> int (length points) \<le> prevChoice)
   \<and> (0 \<le> prevChoice \<and> prevChoice < int (length points) \<and> length rules = 5 \<longrightarrow>
        (\<forall>e. chooseNext points prevChoice rules override g \<noteq> Some (Inl e))
        \<and> chooseNext points prevChoice rules True (r # g)
            = Some (Inr (int r mod int (length points), g)))"
proof (intro conjI impI)
  show "chooseNext points prevChoice rules override g = Some (Inl OutOfRange)
      \<longleftrightarrow> int (length points) \<le> prevChoice"
  proof
    assume "chooseNext points prevChoice rules override g = Some (Inl OutOfRange)"
    from chooseNext_error [OF this] show "int (length points) \<le> prevChoice" by simp
  next
    assume "int (length points) \<le> prevChoice"
    then show "chooseNext points prevChoice rules override g = Some (Inl OutOfRange)"
      by (simp add: chooseNext_def raise_def)
  qed
next
  assume v: "0 \<le> prevChoice \<and> prevChoice < int (length points) \<and> length rules = 5"
  show "\<forall>e. chooseNext points prevChoice rules override g \<noteq> Some (Inl e)"
  proof (intro allI notI)
    fix e assume "chooseNext points prevChoice rules override g = Some (Inl e)"
    from chooseNext_error [OF this] v show False by auto
  qed
  from v have "points \<noteq> []" by auto
  with v show "chooseNext points prevChoice rules True (r # g)
            = Some (Inr (int r mod int (length points), g))"
    by (simp add: chooseNext_def randint_def bind_def ret_def)
qed

theorem chooseNext_guard_witness:
  "chooseNext [(0, 0), (1, 0), (0, 1)] 3 [True, True, False, False, True] False [2]
     = Some (Inl OutOfRange)
   \<and> (0::int) \<le> 1 \<and> (1::int) < int (length [(0::real, 0::real), (1, 0), (0, 1)])
   \<and> length [True, True, False, False, True] = 5
   \<and> chooseNext [(0, 0), (1, 0), (0, 1)] 1 [True, True, False, False, True] False [2, 0]
     = Some (Inr (0, []))
   \<and> chooseNext [(0, 0), (1, 0), (0, 1)] 1 [True, True, False, False, True] True [5, 2]
     = Some (Inr (2, [2]))"
  using chooseNext_guard [of "[(0, 0), (1, 0), (0, 1)]" 3 "[True, True, False, False, True]" False "[2]" 5]
        chooseNext_guard [of "[(0, 0), (1, 0), (0, 1)]" 1 "[True, True, False, False, True]" False "[2]" 5]
        chooseNext_guard [of "[(0, 0), (1, 0), (0, 1)]" 1 "[True, True, False, False, True]" False "[2, 0]" 5]
  by (simp add: run_defs)

lemma getitem_take4:
  assumes "length rules = length rules'" "take 4 rules = take 4 rules'" "k < 4"
  shows "getitem rules (int k) = getitem rules' (int k)"
proof (cases "k < length rules")
  case True
  have "take 4 rules ! k = rules ! k" "take 4 rules' ! k = rules' ! k"
    using assms(3) by (simp_all only: nth_take)
  with assms(2) have "rules ! k = rules' ! k" by simp
  with assms(1) show ?thesis by (simp add: getitem_def)
next
  case False
  with assms show ?thesis by (simp add: getitem_def)
qed

lemma rule_loop_take4:
  assumes "length rules = length rules'" "take 4 rules = take 4 rules'" "k < 4"
  shows "rule_loop rules (int k) n f i g = rule_loop rules' (int k) n f i g"
  using getitem_take4 [OF assms] by (simp add: rule_loop_def)

text \<open>
  Claim C9: \<open>rules[4]\<close> is a no-op. Two calls of \<open>chooseNext\<close> on the same polygon,
  \<open>prevChoice\<close>, \<open>override\<close> and generator, whose rule sets agree on the entries 0 to 3
  (and so differ in \<open>rules[4]\<close> at most), have the same outcome: the same index and the
  same generator left, or the same failure.
\<close>

theorem chooseNext_ignores_rule4:
  assumes "length rules = length rules'" "take 4 rules = take 4 rules'"
  shows "chooseNext points prevChoice rules override g
           = chooseNext points prevChoice rules' override g"
proof -
  have "rule_loop rules 0 = rule_loop rules' 0"
    using rule_loop_take4 [OF assms, of 0] by (intro ext) simp
  moreover have "rule_loop rules 1 = rule_loop rules' 1"
    using rule_loop_take4 [OF assms, of 1] by (intro ext) simp
  moreover have "rule_loop rules 2 = rule_loop rules' 2"
    using rule_loop_take4 [OF assms, of 2] by (intro ext) simp
  moreover have "rule_loop rules 3 = rule_loop rules' 3"
    using rule_loop_take4 [OF assms, of 3] by (intro ext) simp
  ultimately show ?thesis unfolding chooseNext_def by (simp only:)
qed

theorem chooseNext_ignores_rule4_witness:
  "length [True, False, True, False, True] = length [True, False, True, False, False]
   \<and> take 4 [True, False, True, False, True] = take 4 [True, False, True, False, False]
   \<and> chooseNext [(0, 0), (1, 0), (1, 1), (0, 1)] 1 [True, False, True, False, True] False [1, 3, 2]
     = chooseNext [(0, 0), (1, 0), (1, 1), (0, 1)] 1 [True, False, True, False, False] False [1, 3, 2]
   \<and> chooseNext [(0, 0), (1, 0), (1, 1), (0, 1)] 1 [True, False, True, False, True] False [1, 3, 2]
     = Some (Inr (2, []))"
  using chooseNext_ignores_rule4 [of "[True, False, True, False, True]"
          "[True, False, True, False, False]" "[(0, 0), (1, 0), (1, 1), (0, 1)]" 1 False "[1, 3, 2]"]
  by (simp add: run_defs)

subsection \<open>The attractor\<close>

text \<open>
  Claim C6: with \<open>override\<close> true, \<open>jumppoint\<close> is \<open>point1 + (point2 - point1) / 2\<close>
  whatever jump factor is passed; with \<open>override\<close> false it is
  \<open>point1 + (point2 - point1) / f\<close>, for a jump factor \<open>f\<close> one can divide by.
\<close>

theorem jumppoint_factor:
  "jumppoint point1 point2 f True
     = Some (Inr (fst point1 + (fst point2 - fst point1) / 2,
                  snd point1 + (snd point2 - snd point1) / 2))
   \<and> (f \<noteq> 0 \<longrightarrow> jumppoint point1 point2 f False
     = Some (Inr (fst point1 + (fst point2 - fst point1) / f,
                  snd point1 + (snd point2 - snd point1) / f)))"
  by (simp add: jumppoint_def ret_def)

theorem jumppoint_factor_witness:
  "jumppoint (10, 20) (4, 8) 3 True = Some (Inr (7, 14))
   \<and> (3::real) \<noteq> 0 \<and> jumppoint (10, 20) (4, 8) 3 False = Some (Inr (8, 16))"
  using jumppoint_factor [of "(10, 20)" "(4, 8)" 3] by simp






subsection \<open>The placement loop\<close>

lemma getitem_last:
  assumes "getitem coords (- 1) = Some (Inr prev)"
  shows "coords \<noteq> [] \<and> prev = last coords"
proof -
  from assms have ne: "coords \<noteq> []" by (auto simp: getitem_def raise_def)
  then have "nat (int (length coords) - 1) = length coords - 1" by (cases coords) auto
  with assms ne show ?thesis by (auto simp: getitem_def ret_def last_conv_nth split: if_splits)
qed

lemma found_iff: "found coords coord = (\<exists>c \<in> set coords. sorta c coord)"
  by (induction coords) auto

lemma sorta_sym: "sorta l r = sorta r l"
  by (auto simp: sorta_def)

lemma separated_snoc:
  assumes "separated coords" "\<not> found coords coord"
  shows "separated (coords @ [coord])"
  unfolding separated_def
proof (intro allI impI)
  fix i j
  assume ij: "i < length (coords @ [coord])" "j < length (coords @ [coord])" "i \<noteq> j"
  have nf: "\<And>k. k < length coords \<Longrightarrow> \<not> sorta (coords ! k) coord"
    using assms(2) by (auto simp: found_iff)
  show "\<not> sorta ((coords @ [coord]) ! i) ((coords @ [coord]) ! j)"
  proof (cases "i < length coords")
    case i: True
    show ?thesis
    proof (cases "j < length coords")
      case True
      with i ij assms(1) show ?thesis by (simp add: separated_def nth_append)
    next
      case False
      with ij have "j = length coords" by simp
      with i nf show ?thesis by (simp add: nth_append)
    qed
  next
    case False
    with ij have i: "i = length coords" and j: "j < length coords" by auto
    with nf [OF j] show ?thesis by (simp add: nth_append sorta_sym [of coord])
  qed
qed

text \<open>The inner loop ends only on a candidate that collides with no anchor placed so far.\<close>

lemma redraw_spot_not_found:
  "redraw_spot fl coords coord g = Some (Inr (coord', g')) \<Longrightarrow> \<not> found coords coord'"
proof (induction fl coords coord g rule: redraw_spot.induct)
  case (1 fl coords coord g)
  show ?case
  proof (cases "found coords coord")
    case True
    with "1.prems" obtain prev c1 g1 where
      a: "getitem coords (- 1) = Some (Inr prev)" and
      b: "chooseNextSpot fl prev g = Some (Inr (c1, g1))" and
      c: "redraw_spot fl coords c1 g1 = Some (Inr (coord', g'))"
      by (subst (asm) redraw_spot.simps) (auto dest!: bind_returns)
    from "1.IH" [OF True a b refl c] show ?thesis .
  next
    case False
    with "1.prems" show ?thesis by (subst (asm) redraw_spot.simps) (simp add: ret_def)
  qed
qed

lemma place_separated:
  "place fl k width height coords g = Some (Inr (coords', g')) \<Longrightarrow> separated coords
     \<Longrightarrow> separated coords'"
proof (induction k arbitrary: coords g)
  case 0
  then show ?case by (simp add: ret_def)
next
  case (Suc k)
  from Suc.prems(1) obtain c0 g0 coord g1 where
    s: "redraw_spot fl coords c0 g0 = Some (Inr (coord, g1))" and
    r: "(if fst coord > width \<or> fst coord < 0 \<or> snd coord > height \<or> snd coord < 0
         then ret (coords @ [coord], g1)
         else place fl k width height (coords @ [coord]) g1) = Some (Inr (coords', g'))"
    by (auto dest!: bind_returns)
  have sep: "separated (coords @ [coord])"
    using separated_snoc [OF Suc.prems(2) redraw_spot_not_found [OF s]] .
  show ?case
  proof (cases "fst coord > width \<or> fst coord < 0 \<or> snd coord > height \<or> snd coord < 0")
    case True
    with r sep show ?thesis by (simp add: ret_def)
  next
    case False
    with r have "place fl k width height (coords @ [coord]) g1 = Some (Inr (coords', g'))"
      by simp
    from Suc.IH [OF this sep] show ?thesis .
  qed
qed

text \<open>
  Claim C2: in every anchor sequence the placement loop produces (the seed anchor and
  the accepted candidates), no two distinct anchors are within 10 units of each other on
  both axes at once. This holds whatever the float operations are.
\<close>

theorem placement_separated:
  assumes "placement fl minCount maxCount width height g = Some (Inr (coords, g'))"
      and "i < length coords" "j < length coords" "i \<noteq> j"
  shows "\<not> (\<bar>fst (coords ! i) - fst (coords ! j)\<bar> < 10
           \<and> \<bar>snd (coords ! i) - snd (coords ! j)\<bar> < 10)"
proof -
  from assms(1) obtain count g0 where
    "place fl (nat count) width height (coords_init width height) g0 = Some (Inr (coords, g'))"
    by (auto simp: placement_def dest!: bind_returns)
  moreover have "separated (coords_init width height)"
    by (simp add: separated_def coords_init_def)
  ultimately have "separated coords" by (rule place_separated)
  with assms(2-) show ?thesis by (simp add: separated_def sorta_def)
qed

text \<open>
  A run of two rounds in binary64 on an 1820 by 980 view. The second round first draws
  the direction \<^verbatim>\<open>3*math.pi/2\<close>, whose float step from (510, 340) is
  (509.99999999999994, 90.0), truncated to (509, 90): within 10 units of the seed,
  rejected; it then draws \<^verbatim>\<open>math.pi/2\<close>.
\<close>

theorem placement_separated_witness:
  "placement ieee_double 2 2 1820 980 [0, 1, 4, 1]
     = Some (Inr ([(510, 90), (510, 340), (510, 590)], []))
   \<and> (0::nat) < length [(510::real, 90::real), (510, 340), (510, 590)]
   \<and> (2::nat) < length [(510::real, 90::real), (510, 340), (510, 590)] \<and> (0::nat) \<noteq> 2
   \<and> \<not> (\<bar>fst ([(510::real, 90::real), (510, 340), (510, 590)] ! 0)
             - fst ([(510::real, 90::real), (510, 340), (510, 590)] ! 2)\<bar> < 10
         \<and> \<bar>snd ([(510::real, 90::real), (510, 340), (510, 590)] ! 0)
             - snd ([(510::real, 90::real), (510, 340), (510, 590)] ! 2)\<bar> < 10)"
proof -
  have run: "placement ieee_double 2 2 1820 980 [0, 1, 4, 1]
               = Some (Inr ([(510, 90), (510, 340), (510, 590)], []))"
    by (simp add: place_defs)
  from placement_separated [OF run, of 0 2] run show ?thesis by simp
qed

lemma choice_member: "choice seq g = Some (Inr (v, g')) \<Longrightarrow> v \<in> set seq"
  by (auto simp: choice_def raise_def ret_def split: if_splits list.splits)

lemma chooseNextSpot_step: "chooseNextSpot fl prev g = Some (Inr (c, g')) \<Longrightarrow> step fl prev c"
  by (auto simp: chooseNextSpot_def step_def ret_def dest!: bind_returns choice_member)

lemma redraw_spot_step:
  "redraw_spot fl coords coord g = Some (Inr (coord', g')) \<Longrightarrow> step fl (last coords) coord
     \<Longrightarrow> step fl (last coords) coord'"
proof (induction fl coords coord g rule: redraw_spot.induct)
  case (1 fl coords coord g)
  show ?case
  proof (cases "found coords coord")
    case True
    with "1.prems"(1) obtain prev c1 g1 where
      a: "getitem coords (- 1) = Some (Inr prev)" and
      b: "chooseNextSpot fl prev g = Some (Inr (c1, g1))" and
      c: "redraw_spot fl coords c1 g1 = Some (Inr (coord', g'))"
      by (subst (asm) redraw_spot.simps) (auto dest!: bind_returns)
    from a b have "step fl (last coords) c1"
      by (auto dest: getitem_last chooseNextSpot_step)
    from "1.IH" [OF True a b refl c this] show ?thesis .
  next
    case False
    with "1.prems" show ?thesis by (subst (asm) redraw_spot.simps) (simp add: ret_def)
  qed
qed

lemma chain_snoc:
  assumes "chain fl coords" "coords \<noteq> []" "step fl (last coords) coord"
  shows "chain fl (coords @ [coord])"
  unfolding chain_def
proof (intro allI impI)
  fix i
  assume "Suc i < length (coords @ [coord])"
  then have i: "i < length coords" by simp
  show "step fl ((coords @ [coord]) ! i) ((coords @ [coord]) ! Suc i)"
  proof (cases "Suc i < length coords")
    case True
    with assms(1) i show ?thesis by (simp add: chain_def nth_append)
  next
    case False
    with i have "i = length coords - 1" by simp
    with i assms(2,3) show ?thesis by (simp add: nth_append last_conv_nth)
  qed
qed

lemma place_chain:
  "place fl k width height coords g = Some (Inr (coords', g')) \<Longrightarrow> chain fl coords
     \<Longrightarrow> chain fl coords'"
proof (induction k arbitrary: coords g)
  case 0
  then show ?case by (simp add: ret_def)
next
  case (Suc k)
  from Suc.prems(1) obtain prev c0 g0 coord g1 where
    p: "getitem coords (- 1) = Some (Inr prev)" and
    n: "chooseNextSpot fl prev g = Some (Inr (c0, g0))" and
    s: "redraw_spot fl coords c0 g0 = Some (Inr (coord, g1))" and
    r: "(if fst coord > width \<or> fst coord < 0 \<or> snd coord > height \<or> snd coord < 0
         then ret (coords @ [coord], g1)
         else place fl k width height (coords @ [coord]) g1) = Some (Inr (coords', g'))"
    by (auto dest!: bind_returns)
  from p n have ne: "coords \<noteq> []" and "step fl (last coords) c0"
    by (auto dest: getitem_last chooseNextSpot_step)
  then have "step fl (last coords) coord" using redraw_spot_step [OF s] by simp
  then have ch: "chain fl (coords @ [coord])" using chain_snoc [OF Suc.prems(2) ne] by simp
  show ?case
  proof (cases "fst coord > width \<or> fst coord < 0 \<or> snd coord > height \<or> snd coord < 0")
    case True
    with r ch show ?thesis by (simp add: ret_def)
  next
    case False
    with r have "place fl k width height (coords @ [coord]) g1 = Some (Inr (coords', g'))"
      by simp
    from Suc.IH [OF this ch] show ?thesis .
  qed
qed

lemma py_int_near: "\<bar>real_of_int (py_int v) - v\<bar> < 1"
  by (simp add: py_int_def) linarith

text \<open>
  Claim C3, as stated: consecutive anchors differ by exactly \<open>Hex.d\<close> in Euclidean
  distance, each new anchor being the previous one plus \<open>Hex.d\<close> times a direction
  vector. \<open>chooseNextSpot\<close> returns \<open>intTuple\<close> of that sum, so the step is truncated:
  in binary64, from the seed (510, 90) of an 1820 by 980 view, the direction
  \<^verbatim>\<open>math.pi/6\<close> gives the float step (726.5063509461097, 215.0) and the anchor
  (726, 215), at distance \<open>sqrt 62281\<close>, which is less than 250.
\<close>

theorem placement_step_not_exact:
  "placement ieee_double 1 1 1820 980 [0, 0] = Some (Inr ([(510, 90), (726, 215)], []))
   \<and> sqrt ((726 - 510)\<^sup>2 + (215 - 90)\<^sup>2) < Hex_d"
proof
  show "placement ieee_double 1 1 1820 980 [0, 0] = Some (Inr ([(510, 90), (726, 215)], []))"
    by (simp add: place_defs)
  have "sqrt ((726 - 510)\<^sup>2 + (215 - 90)\<^sup>2) < (250::real)"
    by (rule real_less_lsqrt) simp_all
  then show "sqrt ((726 - 510)\<^sup>2 + (215 - 90)\<^sup>2) < Hex_d"
    by (simp add: Hex_d_def Hex_r_def)
qed

text \<open>
  Claim C3, amended: each new anchor is \<open>intTuple\<close> of the previous anchor plus \<open>Hex.d\<close>
  times the cosine and sine of one of the six angles, the sum being the float one: both
  coordinates of that float step truncated to whole numbers, so each coordinate of the
  new anchor is less than 1 away from the float step (and the distance between
  consecutive anchors need not be \<open>Hex.d\<close>). This holds whatever the float operations are.
\<close>

theorem placement_step:
  assumes "placement fl minCount maxCount width height g = Some (Inr (coords, g'))"
      and "Suc i < length coords"
  shows "\<exists>a \<in> set (angles fl).
           coords ! Suc i = intTuple (newCoords fl (coords ! i) a)
         \<and> \<bar>fst (coords ! Suc i) - fst (newCoords fl (coords ! i) a)\<bar> < 1
         \<and> \<bar>snd (coords ! Suc i) - snd (newCoords fl (coords ! i) a)\<bar> < 1"
proof -
  from assms(1) obtain count g0 where
    "place fl (nat count) width height (coords_init width height) g0 = Some (Inr (coords, g'))"
    by (auto simp: placement_def dest!: bind_returns)
  moreover have "chain fl (coords_init width height)"
    by (simp add: chain_def coords_init_def)
  ultimately have "chain fl coords" by (rule place_chain)
  with assms(2) obtain a where a: "a \<in> set (angles fl)"
      "coords ! Suc i = intTuple (newCoords fl (coords ! i) a)"
    by (auto simp: chain_def step_def)
  from a(2) have "\<bar>fst (coords ! Suc i) - fst (newCoords fl (coords ! i) a)\<bar> < 1"
       "\<bar>snd (coords ! Suc i) - snd (newCoords fl (coords ! i) a)\<bar> < 1"
    using py_int_near by (simp_all add: intTuple_def)
  with a show ?thesis by blast
qed

text \<open>
  In binary64 the direction \<^verbatim>\<open>3*math.pi/2\<close> from the seed (510, 90) gives the float
  step (509.99999999999994, -160.0) and the anchor (509, -160).
\<close>

theorem placement_step_witness:
  "placement ieee_double 1 1 1820 980 [3, 4] = Some (Inr ([(510, 90), (509, - 160)], []))
   \<and> Suc 0 < length [(510::real, 90::real), (509, - 160)]
   \<and> (\<exists>a \<in> set (angles ieee_double).
        (509::real, - 160::real) = intTuple (newCoords ieee_double (510, 90) a)
        \<and> \<bar>509 - fst (newCoords ieee_double (510, 90) a)\<bar> < 1
        \<and> \<bar>- 160 - snd (newCoords ieee_double (510, 90) a)\<bar> < 1)"
proof -
  have run: "placement ieee_double 1 1 1820 980 [3, 4]
               = Some (Inr ([(510, 90), (509, - 160)], []))"
    by (simp add: place_defs)
  have len: "Suc 0 < length [(510::real, 90::real), (509, - 160)]" by simp
  from placement_step [OF run len] run len show ?thesis by simp
qed

text \<open>
  Claim C7, as stated: with \<open>minCount = maxCount = 1\<close> the sequence is exactly the seed
  anchor. The count drawn is the number of rounds of the loop, each of which appends an
  anchor (the cells are additional to the seed), so one round gives two anchors.
\<close>

theorem placement_one_round_two_anchors:
  "placement ieee_double 1 1 1820 980 [5, 1] = Some (Inr ([(510, 90), (510, 340)], []))
   \<and> coords_init 1820 980 = [(510, 90)]"
  by (simp add: place_defs)

lemma length_angles: "length (angles fl) = 6"
  by (simp add: angles_def)

lemma far_not_sorta:
  assumes "11 \<le> \<bar>fst v - fst s\<bar> \<or> 11 \<le> \<bar>snd v - snd s\<bar>"
  shows "\<not> sorta s (intTuple v)"
  using assms py_int_near [of "fst v"] py_int_near [of "snd v"]
  by (auto simp: sorta_def intTuple_def)

text \<open>A first round from the seed alone: it returns, on the first direction drawn.\<close>

lemma place_first_round:
  assumes "11 \<le> \<bar>fst (newCoords fl seed (angles fl ! (r mod 6))) - fst seed\<bar>
         \<or> 11 \<le> \<bar>snd (newCoords fl seed (angles fl ! (r mod 6))) - snd seed\<bar>"
  shows "place fl (Suc 0) width height [seed] (r # g)
           = Some (Inr ([seed, intTuple (newCoords fl seed (angles fl ! (r mod 6)))], g))"
proof -
  let ?c = "intTuple (newCoords fl seed (angles fl ! (r mod 6)))"
  have ne: "angles fl \<noteq> []" using length_angles [of fl] by auto
  have spot: "chooseNextSpot fl seed (r # g) = Some (Inr (?c, g))"
    using ne by (simp add: chooseNextSpot_def choice_def bind_def ret_def length_angles)
  have "\<not> found [seed] ?c" using far_not_sorta [OF assms] by simp
  then have settle: "redraw_spot fl [seed] ?c g = Some (Inr (?c, g))"
    by (subst redraw_spot.simps) (simp add: ret_def)
  have last: "getitem [seed] (- 1) = Some (Inr seed)"
    by (simp add: getitem_def ret_def)
  show ?thesis by (simp add: last spot settle bind_def ret_def)
qed

text \<open>
  Claim C7, amended: with \<open>minCount = maxCount = 1\<close> the sequence is exactly the seed
  anchor followed by one anchor, the truncated float step from the seed in the direction
  drawn; the round returns as soon as the generator has the two values it draws, a step
  of length \<open>Hex.d\<close> moving at least 11 units on one axis and so never colliding with
  the seed. The sequence is exactly the seed anchor when the count is 0.
\<close>

theorem placement_count_one:
  assumes "seed = (width / 2 - 400, height / 2 - 400)"
      and "a = angles fl ! (r2 mod 6)"
      and "11 \<le> \<bar>fst (newCoords fl seed a) - fst seed\<bar>
         \<or> 11 \<le> \<bar>snd (newCoords fl seed a) - snd seed\<bar>"
  shows "placement fl 1 1 width height (r1 # r2 # g)
           = Some (Inr ([seed, intTuple (newCoords fl seed a)], g))
       \<and> placement fl 0 0 width height (r1 # g) = Some (Inr ([seed], g))"
proof
  from assms(3) have "place fl (Suc 0) width height [seed] (r2 # g)
           = Some (Inr ([seed, intTuple (newCoords fl seed a)], g))"
    unfolding assms(2) by (rule place_first_round)
  then show "placement fl 1 1 width height (r1 # r2 # g)
           = Some (Inr ([seed, intTuple (newCoords fl seed a)], g))"
    by (simp add: placement_def coords_init_def randint_def bind_def ret_def assms(1))
  show "placement fl 0 0 width height (r1 # g) = Some (Inr ([seed], g))"
    by (simp add: placement_def coords_init_def randint_def bind_def ret_def assms(1))
qed

theorem placement_count_one_witness:
  "(510::real, 90::real) = (1820 / 2 - 400, 980 / 2 - 400)
   \<and> 884279719003555 / 562949953421312 = angles ieee_double ! (1 mod 6)
   \<and> (11 \<le> \<bar>fst (newCoords ieee_double (510, 90) (884279719003555 / 562949953421312)) - fst (510::real, 90::real)\<bar>
      \<or> 11 \<le> \<bar>snd (newCoords ieee_double (510, 90) (884279719003555 / 562949953421312)) - snd (510::real, 90::real)\<bar>)
   \<and> placement ieee_double 1 1 1820 980 [7, 1] = Some (Inr ([(510, 90), (510, 340)], []))
   \<and> placement ieee_double 0 0 1820 980 [7] = Some (Inr ([(510, 90)], []))"
proof -
  have seed: "(510::real, 90::real) = (1820 / 2 - 400, 980 / 2 - 400)" by simp
  have a: "884279719003555 / 562949953421312 = angles ieee_double ! (1 mod 6)"
    by (simp add: angles_ieee libm_table_def)
  have step: "newCoords ieee_double (510, 90) (884279719003555 / 562949953421312) = (510, 340)"
    by (simp add: spot_defs)
  have far: "11 \<le> \<bar>fst (newCoords ieee_double (510, 90) (884279719003555 / 562949953421312)) - fst (510::real, 90::real)\<bar>
      \<or> 11 \<le> \<bar>snd (newCoords ieee_double (510, 90) (884279719003555 / 562949953421312)) - snd (510::real, 90::real)\<bar>"
    by (simp add: step)
  have both: "placement ieee_double 1 1 1820 980 [7, 1]
                = Some (Inr ([(510, 90), (510, 340)], []))
              \<and> placement ieee_double 0 0 1820 980 [7] = Some (Inr ([(510, 90)], []))"
    using placement_count_one [OF seed a far, of 7 "[]"]
    by (simp add: step intTuple_def py_int_def)
  from seed a far both show ?thesis by blast
qed

text \<open>
  The program itself draws the count from 7 to 15, so its own sequence never is the seed
  anchor alone.
\<close>

lemma place_extends:
  "place fl k width height coords g = Some (Inr (coords', g')) \<Longrightarrow>
     \<exists>ext. coords' = coords @ ext \<and> length ext \<le> k \<and> (0 < k \<longrightarrow> ext \<noteq> [])"
proof (induction k arbitrary: coords g)
  case 0
  then show ?case by (simp add: ret_def)
next
  case (Suc k)
  from Suc.prems obtain coord g1 where
    r: "(if fst coord > width \<or> fst coord < 0 \<or> snd coord > height \<or> snd coord < 0
         then ret (coords @ [coord], g1)
         else place fl k width height (coords @ [coord]) g1) = Some (Inr (coords', g'))"
    by (auto dest!: bind_returns)
  show ?case
  proof (cases "fst coord > width \<or> fst coord < 0 \<or> snd coord > height \<or> snd coord < 0")
    case True
    with r have "coords' = coords @ [coord]" by (simp add: ret_def)
    then show ?thesis by simp
  next
    case False
    with r have "place fl k width height (coords @ [coord]) g1 = Some (Inr (coords', g'))"
      by simp
    from Suc.IH [OF this] obtain ext where
      "coords' = (coords @ [coord]) @ ext" "length ext \<le> k" by blast
    then have "coords' = coords @ (coord # ext) \<and> length (coord # ext) \<le> Suc k
                 \<and> coord # ext \<noteq> []" by simp
    then show ?thesis by blast
  qed
qed

lemma main_placement_at_least_two:
  assumes "main_placement fl width height g = Some (Inr (coords, g'))"
  shows "2 \<le> length coords \<and> length coords \<le> 16
       \<and> coords ! 0 = (width / 2 - 400, height / 2 - 400)"
proof -
  from assms obtain count g0 where
    c: "randint 7 15 g = Some (Inr (count, g0))" and
    p: "place fl (nat count) width height (coords_init width height) g0
          = Some (Inr (coords, g'))"
    by (auto simp: main_placement_def placement_def dest!: bind_returns)
  from c have "7 \<le> count \<and> count \<le> 15"
    by (auto simp: randint_def ret_def raise_def split: list.splits if_splits)
  with place_extends [OF p] obtain ext where
    e: "coords = coords_init width height @ ext" "length ext \<le> nat count" "ext \<noteq> []"
    by auto
  from e(3) have "Suc 0 \<le> length ext" by (cases ext) simp_all
  with e(1,2) \<open>7 \<le> count \<and> count \<le> 15\<close> show ?thesis
    by (auto simp: coords_init_def)
qed

subsection \<open>The palette\<close>

lemma colorIndex_range: "0 \<le> colorIndex i index \<and> colorIndex i index < 255"
  by (simp add: colorIndex_def)

lemma genGradient_length:
  assumes "genGradient lib g = Some (Inr (grad, g'))"
      and "\<forall>a b. length (range_to lib a b 255) = 255"
  shows "length grad = 255"
  using assms by (auto simp: genGradient_def ret_def dest!: bind_returns)

lemma getitem_palette:
  assumes "length grad = 255"
  shows "getitem grad (colorIndex i index) = Some (Inr (grad ! nat (colorIndex i index)))"
  using colorIndex_range [of i index] assms by (simp add: getitem_def ret_def)

lemma drawNext_no_error:
  assumes "length (self_grad self) = 255" "self_pointIndex self < length (self_points self)"
  shows "drawNext lib self surface g \<noteq> Some (Inl e)"
proof -
  have p: "getitem (self_points self) (int (self_pointIndex self))
            = Some (Inr (self_points self ! self_pointIndex self))"
    using assms(2) by (simp add: getitem_def ret_def)
  show ?thesis
    by (cases g) (simp_all add: drawNext_def p getitem_palette [OF assms(1)] choice_def bind_def ret_def)
qed

lemma drawNext_returns:
  assumes "length (self_grad self) = 255" "self_pointIndex self < length (self_points self)"
      and "g \<noteq> []"
  shows "\<exists>out. drawNext lib self surface g = Some (Inr out)"
proof -
  obtain r g1 where g: "g = r # g1" using assms(3) by (cases g) auto
  have p: "getitem (self_points self) (int (self_pointIndex self))
            = Some (Inr (self_points self ! self_pointIndex self))"
    using assms(2) by (simp add: getitem_def ret_def)
  show ?thesis
    by (simp add: drawNext_def p getitem_palette [OF assms(1)] g choice_def bind_def ret_def)
qed

text \<open>
  Claim C10: the palette lookup of \<open>drawNext\<close> is always in bounds. For a colour library
  whose \<open>range_to\<close> yields the 255 colours asked for, \<open>genGradient\<close> returns a gradient of
  exactly 255 colours; the palette index \<open>int(coordinate) mod 255\<close> lies in \<open>[0, 254]\<close>
  for every coordinate, negative ones included; so on an instance with such a gradient
  and a cursor inside the point sequence \<open>drawNext\<close> raises nothing, and returns as soon
  as the generator has a value for its \<open>random.choice\<close>.
\<close>

theorem palette_lookup_in_bounds:
  assumes "\<forall>a b. length (range_to lib a b 255) = 255"
  shows "(genGradient lib g0 = Some (Inr (grad, g1)) \<longrightarrow> length grad = 255)
       \<and> 0 \<le> colorIndex i index \<and> colorIndex i index < 255
       \<and> (length (self_grad self) = 255 \<and> self_pointIndex self < length (self_points self) \<longrightarrow>
            (\<forall>e. drawNext lib self surface g \<noteq> Some (Inl e))
            \<and> (g \<noteq> [] \<longrightarrow> (\<exists>out. drawNext lib self surface g = Some (Inr out))))"
  using assms genGradient_length [of lib g0 grad g1] colorIndex_range [of i index]
        drawNext_no_error [of self lib surface g] drawNext_returns [of self g lib surface]
  by blast

theorem palette_lookup_in_bounds_witness:
  "(\<forall>a b. length (range_to rgb_module a b 255) = 255)
   \<and> genGradient rgb_module [0, 4] = Some (Inr (rgb_range_to (1, 0, 0) (0, 0, 1) 255, []))
   \<and> length (rgb_range_to (1, 0, 0) (0, 0, 1) 255) = 255
   \<and> colorIndex (- 37 / 10, 12) 0 = 252
   \<and> (0::nat) < length [(- 37 / 10 :: real, 12 :: real)] \<and> [1::nat] \<noteq> []
   \<and> (\<exists>out. drawNext rgb_module
         ((Hex_fields 0 0 [True, False, False, False, True] 2 4
             (rgb_range_to (1, 0, 0) (0, 0, 1) 255))\<lparr>self_points := [(- 37 / 10, 12)]\<rparr>)
         [] [1] = Some (Inr out))"
proof -
  have contract: "\<forall>a b. length (range_to rgb_module a b 255) = 255"
    by (simp add: rgb_module_def rgb_range_to_def)
  have run: "genGradient rgb_module [0, 4]
               = Some (Inr (rgb_range_to (1, 0, 0) (0, 0, 1) 255, []))"
    by (simp add: genGradient_def colors_def rgb_module_def rgb_Color_def run_defs)
  have idx: "colorIndex (- 37 / 10, 12) 0 = 252"
    by (simp add: colorIndex_def py_int_def ceiling_eq_iff)
  from palette_lookup_in_bounds [OF contract, of "[0, 4]" "rgb_range_to (1, 0, 0) (0, 0, 1) 255" "[]"
         "(- 37 / 10, 12)" 0
         "(Hex_fields 0 0 [True, False, False, False, True] 2 4
             (rgb_range_to (1, 0, 0) (0, 0, 1) 255))\<lparr>self_points := [(- 37 / 10, 12)]\<rparr>"
         "[]" "[1]"]
       contract run idx
  show ?thesis by (simp add: Hex_fields_def)
qed

end
